theory Spec2Isabelle
  imports Complex_Main "HOL-Library.Sublist" "HOL-Library.Product_Lexorder" "HOL-Library.Multiset"
begin

section \<open>Python strings\<close>

text \<open>
  A Python \<open>str\<close> is modelled as an Isabelle \<open>string\<close>: a list of characters, each read
  as one code point in the range U+0000..U+00FF. Documents that contain code points
  beyond that range are outside the model.
\<close>

definition is_space :: "char \<Rightarrow> bool" where
  \<comment> \<open>\<open>str.isspace\<close> and the regular expression class \<open>\<bsol>s\<close> on U+0000..U+00FF\<close>
  "is_space c = (of_char c \<in> {9, 10, 11, 12, 13, 28, 29, 30, 31, 32, 133, 160 :: nat})"

definition is_digit :: "char \<Rightarrow> bool" where
  \<comment> \<open>the regular expression class \<open>\<bsol>d\<close> on U+0000..U+00FF\<close>
  "is_digit c = (48 \<le> (of_char c :: nat) \<and> (of_char c :: nat) \<le> 57)"

definition strip :: "string \<Rightarrow> string" where
  \<comment> \<open>\<open>str.strip()\<close>\<close>
  "strip s = rev (dropWhile is_space (rev (dropWhile is_space s)))"

definition clamp_index :: "nat \<Rightarrow> int \<Rightarrow> nat" where
  \<comment> \<open>how a slice bound is read against a sequence of length \<open>n\<close>\<close>
  "clamp_index n i = (if i < 0 then nat (max 0 (int n + i)) else min n (nat i))"

definition py_slice :: "'a list \<Rightarrow> int \<Rightarrow> int \<Rightarrow> 'a list" where
  \<comment> \<open>\<open>xs[lo:hi]\<close>\<close>
  "py_slice xs lo hi =
     (let a = clamp_index (length xs) lo; b = clamp_index (length xs) hi
      in take (b - a) (drop a xs))"

definition digit_char :: "nat \<Rightarrow> char" where
  "digit_char d = char_of (48 + d)"

fun str_nat :: "nat \<Rightarrow> string" where
  "str_nat n = (if n < 10 then [digit_char n] else str_nat (n div 10) @ [digit_char (n mod 10)])"

declare str_nat.simps [simp del]

definition str_int :: "int \<Rightarrow> string" where
  \<comment> \<open>\<open>str(i)\<close> for an integer\<close>
  "str_int i = (if i < 0 then CHR ''-'' # str_nat (nat (- i)) else str_nat (nat i))"

section \<open>Text Chunker (services/aoai.py)\<close>

datatype py_error = ValueError | TypeError | AttributeError | IndexError | KeyError
  | UpstreamError string

record section_entry =
  sec_heading :: string
  sec_offset :: "int option"

record chunk =
  heading :: string
  content :: string

definition newline2 :: string where
  "newline2 = [CHR 0x0A, CHR 0x0A]"

text \<open>
  \<open>_chunk_by_size\<close>: \<open>for i in range(0, len(text), MAX_CHUNK_CHARS)\<close> appends the slice
  \<open>text[i : i + MAX_CHUNK_CHARS]\<close> under the heading \<open>Part k\<close>. \<open>MAX_CHUNK_CHARS\<close> is read
  from the environment (default 30000) and is a parameter here; \<open>range\<close> raises
  \<open>ValueError\<close> on a zero step and is empty on a negative one.
\<close>

definition chunk_by_size :: "int \<Rightarrow> string \<Rightarrow> py_error + chunk list" where
  "chunk_by_size max_chunk_chars text =
     (if max_chunk_chars = 0 then Inl ValueError
      else if max_chunk_chars < 0 then Inr []
      else let m = nat max_chunk_chars in
        Inr (map (\<lambda>k. \<lparr>heading = ''Part '' @ str_nat (k + 1),
                        content = take m (drop (k * m) text)\<rparr>)
                 [0 ..< (length text + m - 1) div m]))"

text \<open>
  \<open>_merge_small_chunks\<close>: the loop over \<open>chunks\<close> with its three variables \<open>merged\<close>,
  \<open>buffer_heading\<close> and \<open>buffer_content\<close>.
\<close>

fun merge_loop :: "int \<Rightarrow> chunk list \<Rightarrow> chunk list \<Rightarrow> string \<Rightarrow> string \<Rightarrow> chunk list" where
  "merge_loop max_size [] merged bh bc =
     (if bc \<noteq> [] then merged @ [\<lparr>heading = bh, content = strip bc\<rparr>] else merged)"
| "merge_loop max_size (c # cs) merged bh bc =
     (if int (length bc) + int (length (content c)) < max_size
      then merge_loop max_size cs merged
             (if bh \<noteq> [] then bh @ '' + '' @ heading c else heading c)
             (bc @ newline2 @ content c)
      else merge_loop max_size cs
             (if bc \<noteq> [] then merged @ [\<lparr>heading = bh, content = strip bc\<rparr>] else merged)
             (heading c) (content c))"

definition merge_small_chunks :: "chunk list \<Rightarrow> int \<Rightarrow> chunk list" where
  "merge_small_chunks chunks max_size = merge_loop max_size chunks [] [] []"

text \<open>
  \<open>split_into_sections\<close>. \<open>sorted\<close> is stable, as \<open>sort_key\<close> is. A section is sliced from
  its offset to the next section's offset (the last one to the end of the text).
\<close>

fun section_chunks :: "string \<Rightarrow> (string \<times> int) list \<Rightarrow> chunk list" where
  "section_chunks text [] = []"
| "section_chunks text [(h, start)] =
     (let c = strip (py_slice text start (int (length text)))
      in if c \<noteq> [] then [\<lparr>heading = h, content = c\<rparr>] else [])"
| "section_chunks text ((h, start) # (h', next) # rest) =
     (let c = strip (py_slice text start next)
      in (if c \<noteq> [] then [\<lparr>heading = h, content = c\<rparr>] else [])
         @ section_chunks text ((h', next) # rest))"

definition with_offset :: "section_entry list \<Rightarrow> (string \<times> int) list" where
  \<comment> \<open>\<open>[s for s in sections if s.get("offset") is not None]\<close>\<close>
  "with_offset sections =
     List.map_filter (\<lambda>s. case sec_offset s of None \<Rightarrow> None | Some off \<Rightarrow> Some (sec_heading s, off))
       sections"

definition preamble_chunks :: "string \<Rightarrow> int \<Rightarrow> chunk list" where
  "preamble_chunks text first_offset =
     (if first_offset > 0
      then (let p = strip (py_slice text 0 first_offset)
            in if p \<noteq> [] then [\<lparr>heading = ''Preamble / Title'', content = p\<rparr>] else [])
      else [])"

definition split_into_sections ::
  "int \<Rightarrow> string \<Rightarrow> section_entry list \<Rightarrow> py_error + chunk list" where
  "split_into_sections max_chunk_chars text sections =
     (if length sections < 2 then chunk_by_size max_chunk_chars text
      else case sort_key snd (with_offset sections) of
        [] \<Rightarrow> chunk_by_size max_chunk_chars text
      | (h, first_offset) # rest \<Rightarrow>
          Inr (merge_small_chunks
                 (preamble_chunks text first_offset
                    @ section_chunks text ((h, first_offset) # rest))
                 max_chunk_chars))"

section \<open>Self-Correction Controller (services/workflow_runner.py)\<close>

text \<open>
  Step 3 of \<open>run_workflow\<close>. The two services it calls are arguments of the model:
  \<open>validate out skip_llm\<close> stands for \<open>validate_grounding(out, input_text, skip_llm)\<close> and
  \<open>correct out report\<close> for \<open>correct_ungrounded_claims(out, input_text, report)\<close>; either
  may raise. The state records every call that was made, in order.
\<close>

datatype call = ValidateFull | ValidateFast | Correct

record ('o, 'r, 'c) loop_state =
  parsed :: 'o
  grounding_result :: 'r
  all_corrections :: "'c list"
  correction_round :: nat
  calls :: "call list"

function correction_loop ::
  "nat \<Rightarrow> ('r \<Rightarrow> int) \<Rightarrow> ('o \<Rightarrow> bool \<Rightarrow> py_error + 'r) \<Rightarrow> ('o \<Rightarrow> 'r \<Rightarrow> py_error + ('o \<times> 'c list))
   \<Rightarrow> ('o, 'r, 'c) loop_state \<Rightarrow> ('o, 'r, 'c) loop_state \<times> py_error option" where
  "correction_loop max_rounds errors_of validate correct st =
     (if errors_of (grounding_result st) > 0 \<and> correction_round st < max_rounds
      then
        (let st1 = st\<lparr>correction_round := correction_round st + 1, calls := calls st @ [Correct]\<rparr>
         in case correct (parsed st1) (grounding_result st1) of
              Inl e \<Rightarrow> (st1, Some e)
            | Inr (corrected_output, corrections_applied) \<Rightarrow>
                if corrections_applied = [] then (st1, None)
                else
                  (let st2 = st1\<lparr>all_corrections := all_corrections st1 @ corrections_applied,
                                 parsed := corrected_output,
                                 calls := calls st1 @ [ValidateFast]\<rparr>
                   in case validate corrected_output True of
                        Inl e \<Rightarrow> (st2, Some e)
                      | Inr g \<Rightarrow>
                          correction_loop max_rounds errors_of validate correct
                            (st2\<lparr>grounding_result := g\<rparr>)))
      else (st, None))"
  by pat_completeness auto
termination
  by (relation "measure (\<lambda>(m, _, _, _, st). m - correction_round st)") auto

declare correction_loop.simps [simp del]

definition MAX_CORRECTION_ROUNDS :: nat where
  "MAX_CORRECTION_ROUNDS = 1"

record ('o, 'r, 'c) grounding_outcome =
  final_parsed :: 'o
  final_report :: 'r
  corrections_applied :: "'c list"
  correction_rounds :: nat

definition attach_metadata :: "('o, 'r, 'c) loop_state \<Rightarrow> ('o, 'r, 'c) grounding_outcome" where
  "attach_metadata st =
     (if all_corrections st \<noteq> []
      then \<lparr>final_parsed = parsed st, final_report = grounding_result st,
            corrections_applied = all_corrections st, correction_rounds = correction_round st\<rparr>
      else \<lparr>final_parsed = parsed st, final_report = grounding_result st,
            corrections_applied = [], correction_rounds = 0\<rparr>)"

text \<open>
  The argument \<open>None\<close> stands for a \<open>result["parsed"]\<close> that is falsy or not a dict: then no
  validation runs and \<open>result["grounding"]\<close> is \<open>None\<close>.
\<close>

definition run_grounding ::
  "nat \<Rightarrow> ('r \<Rightarrow> int) \<Rightarrow> ('o \<Rightarrow> bool \<Rightarrow> py_error + 'r) \<Rightarrow> ('o \<Rightarrow> 'r \<Rightarrow> py_error + ('o \<times> 'c list))
   \<Rightarrow> 'o option \<Rightarrow> call list \<times> (py_error + ('o, 'r, 'c) grounding_outcome option)" where
  "run_grounding max_rounds errors_of validate correct result_parsed =
     (case result_parsed of
        None \<Rightarrow> ([], Inr None)
      | Some out \<Rightarrow>
          (case validate out False of
             Inl e \<Rightarrow> ([ValidateFull], Inl e)
           | Inr g \<Rightarrow>
               (case correction_loop max_rounds errors_of validate correct
                       \<lparr>parsed = out, grounding_result = g, all_corrections = [],
                        correction_round = 0, calls = [ValidateFull]\<rparr> of
                  (st, Some e) \<Rightarrow> (calls st, Inl e)
                | (st, None) \<Rightarrow> (calls st, Inr (Some (attach_metadata st))))))"

text \<open>Two stand-ins for the services, used to run the controller on a concrete input.\<close>

definition demo_validate :: "nat \<Rightarrow> bool \<Rightarrow> py_error + int" where
  "demo_validate out skip_llm = Inr 2"

definition demo_correct :: "nat \<Rightarrow> int \<Rightarrow> py_error + (nat \<times> string list)" where
  "demo_correct out report = Inr (out + 1, [''removed''])"

section \<open>Figure-Text Matcher (services/aoai.py)\<close>

definition lower_char :: "char \<Rightarrow> char" where
  \<comment> \<open>\<open>str.lower()\<close> on one code point of U+0000..U+00FF\<close>
  "lower_char c =
     (let n = of_char c :: nat
      in if (65 \<le> n \<and> n \<le> 90) \<or> (192 \<le> n \<and> n \<le> 222 \<and> n \<noteq> 215) then char_of (n + 32) else c)"

definition lower :: "string \<Rightarrow> string" where
  "lower s = map lower_char s"

fun match_ci :: "string \<Rightarrow> string \<Rightarrow> string option" where
  \<comment> \<open>a literal of a pattern compiled with \<open>re.IGNORECASE\<close>: the rest of the text after it\<close>
  "match_ci [] s = Some s"
| "match_ci (p # ps) [] = None"
| "match_ci (p # ps) (c # cs) = (if lower_char c = lower_char p then match_ci ps cs else None)"

definition nat_of_digits :: "string \<Rightarrow> nat" where
  \<comment> \<open>the number that a string of decimal digits denotes\<close>
  "nat_of_digits ds = foldl (\<lambda>a c. 10 * a + (of_char c - 48)) 0 ds"

text \<open>
  \<open>int(s)\<close> on a string of decimal digits. CPython refuses a string of more than
  \<open>sys.int_max_str_digits\<close> digits, 4300 unless the interpreter was configured otherwise,
  and raises \<open>ValueError\<close>; leading zeros count as digits.
\<close>

definition int_max_str_digits :: nat where
  "int_max_str_digits = 4300"

definition py_int :: "string \<Rightarrow> py_error + nat" where
  "py_int ds = (if int_max_str_digits < length ds then Inl ValueError else Inr (nat_of_digits ds))"

text \<open>
  The pattern of \<open>_match_figures_to_paper\<close>,
  \<^verbatim>\<open>(?:Fig\.?\s*|Figure\s*)(\d+)\s*[.:\s]([^\n]{0,200})\<close> with \<open>re.IGNORECASE\<close>,
  matched at the start of \<open>s\<close>. Every quantifier is greedy, and backtracking has one
  choice only: a keyword (\<open>Fig\<close>, an optional dot, or \<open>Figure\<close>) and its white space must
  end at a digit; the digits are taken whole; after the white space that follows them the
  separator is a dot or a colon, else the last character of that white space, else there
  is no match. \<open>after_fig_keyword\<close> returns the text from the first digit on;
  \<open>fig_ref_at\<close> returns the digits (group 1), the caption (group 2) and the length of the
  match.
\<close>

definition after_fig_keyword :: "string \<Rightarrow> string option" where
  "after_fig_keyword s =
     (let alt1 =
        (case match_ci ''Fig'' s of
           None \<Rightarrow> None
         | Some r \<Rightarrow>
             (let r1 = (case r of [] \<Rightarrow> r | c # cs \<Rightarrow> if c = CHR ''.'' then cs else r);
                  r2 = dropWhile is_space r1
              in if r2 \<noteq> [] \<and> is_digit (hd r2) then Some r2 else None))
      in case alt1 of
           Some r \<Rightarrow> Some r
         | None \<Rightarrow>
             (case match_ci ''Figure'' s of
                None \<Rightarrow> None
              | Some q \<Rightarrow>
                  (let q2 = dropWhile is_space q
                   in if q2 \<noteq> [] \<and> is_digit (hd q2) then Some q2 else None)))"

definition fig_ref_at :: "string \<Rightarrow> (string \<times> string \<times> nat) option" where
  "fig_ref_at s =
     (case after_fig_keyword s of
        None \<Rightarrow> None
      | Some r \<Rightarrow>
          (let ds = takeWhile is_digit r;
               r1 = dropWhile is_digit r;
               ws = takeWhile is_space r1;
               r2 = dropWhile is_space r1;
               after_sep =
                 (if r2 \<noteq> [] \<and> (hd r2 = CHR ''.'' \<or> hd r2 = CHR '':'') then Some (tl r2)
                  else if ws \<noteq> [] then Some r2
                  else None)
           in case after_sep of
                None \<Rightarrow> None
              | Some r3 \<Rightarrow>
                  (let cap = take 200 (takeWhile (\<lambda>c. c \<noteq> CHR 0x0A) r3)
                   in Some (ds, cap, length s - length r3 + length cap))))"

record fig_ref =
  fig_num :: nat
  ref_caption :: string
  ref_offset :: nat

text \<open>
  \<open>re.finditer\<close>: the matches from left to right, none overlapping another. \<open>skip\<close> counts
  the characters of the last match that are still to be passed over, \<open>off\<close> is the offset
  of the next character. A match is given by its group 1, its group 2 and its start.
\<close>

fun scan_fig_matches :: "nat \<Rightarrow> nat \<Rightarrow> string \<Rightarrow> (string \<times> string \<times> nat) list" where
  "scan_fig_matches skip off [] = []"
| "scan_fig_matches (Suc k) off (c # cs) = scan_fig_matches k (Suc off) cs"
| "scan_fig_matches 0 off (c # cs) =
     (case fig_ref_at (c # cs) of
        None \<Rightarrow> scan_fig_matches 0 (Suc off) cs
      | Some (ds, cap, len) \<Rightarrow> (ds, cap, off) # scan_fig_matches (len - 1) (Suc off) cs)"

definition fig_matches :: "string \<Rightarrow> (string \<times> string \<times> nat) list" where
  "fig_matches text = scan_fig_matches 0 0 text"

text \<open>
  The loop over the matches that fills \<open>fig_refs\<close>. Its first statement is
  \<open>fig_num = int(m.group(1))\<close>, so the loop ends with \<open>ValueError\<close> at the first match
  whose number is too long for \<open>int\<close>.
\<close>

fun fig_refs_of :: "(string \<times> string \<times> nat) list \<Rightarrow> py_error + fig_ref list" where
  "fig_refs_of [] = Inr []"
| "fig_refs_of ((ds, cap, off) # ms) =
     (case py_int ds of
        Inl e \<Rightarrow> Inl e
      | Inr num \<Rightarrow>
          (case fig_refs_of ms of
             Inl e \<Rightarrow> Inl e
           | Inr rest \<Rightarrow> Inr (\<lparr>fig_num = num, ref_caption = strip cap, ref_offset = off\<rparr> # rest)))"

definition find_fig_refs :: "string \<Rightarrow> py_error + fig_ref list" where
  "find_fig_refs text = fig_refs_of (fig_matches text)"

fun dedup_refs :: "nat list \<Rightarrow> fig_ref list \<Rightarrow> fig_ref list" where
  \<comment> \<open>the loop over \<open>fig_refs\<close> with the set \<open>seen_nums\<close>\<close>
  "dedup_refs seen_nums [] = []"
| "dedup_refs seen_nums (r # rs) =
     (if fig_num r \<notin> set seen_nums then r # dedup_refs (fig_num r # seen_nums) rs
      else dedup_refs seen_nums rs)"

definition unique_refs :: "fig_ref list \<Rightarrow> fig_ref list" where
  "unique_refs fig_refs = dedup_refs [] fig_refs"

record figure_description =
  fd_index :: "int option"
  fd_page :: int
  fd_caption :: string
  fd_description :: string

record matched_figure =
  label :: string
  mf_page :: int
  mf_description :: string

definition image_key :: "figure_description \<Rightarrow> int \<times> int" where
  \<comment> \<open>\<open>lambda x: (x["page"], x.get("index", 0))\<close>\<close>
  "image_key x = (fd_page x, (case fd_index x of None \<Rightarrow> 0 | Some i \<Rightarrow> i))"

definition pair_in_order :: "figure_description \<Rightarrow> fig_ref \<Rightarrow> matched_figure" where
  "pair_in_order img ref =
     \<lparr>label = ''Fig. '' @ str_nat (fig_num ref), mf_page = fd_page img,
      mf_description = fd_description img\<rparr>"

text \<open>
  \<open>_match_figures_to_paper\<close>. The scored greedy assignment that runs when the two counts
  differ (lines 193 to 281) is the argument \<open>greedy\<close>: it receives the text, the sorted
  images and the sorted references.
\<close>

definition match_figures_to_paper ::
  "(string \<Rightarrow> figure_description list \<Rightarrow> fig_ref list \<Rightarrow> matched_figure list)
   \<Rightarrow> string \<Rightarrow> figure_description list \<Rightarrow> py_error + matched_figure list" where
  "match_figures_to_paper greedy text figure_descriptions =
     (if figure_descriptions = [] then Inr []
      else case find_fig_refs text of
        Inl e \<Rightarrow> Inl e
      | Inr fig_refs \<Rightarrow>
          if unique_refs fig_refs = [] then
            Inr (map (\<lambda>fd. \<lparr>label = ''Image from Page '' @ str_int (fd_page fd),
                              mf_page = fd_page fd, mf_description = fd_description fd\<rparr>)
                     figure_descriptions)
          else
            (let sorted_images = sort_key image_key figure_descriptions;
                 sorted_refs = sort_key fig_num (unique_refs fig_refs)
             in if length sorted_images = length sorted_refs
                then Inr (map2 pair_in_order sorted_images sorted_refs)
                else Inr (greedy text sorted_images sorted_refs)))"




text \<open>A text whose only figure reference has a number of 4301 digits.\<close>

definition long_number_text :: string where
  "long_number_text = ''Fig. '' @ replicate 4301 CHR ''1'' @ '': Survival''"

section \<open>Grounding Validator (services/grounding.py)\<close>

subsection \<open>Numbers\<close>

text \<open>
  A Python \<open>float\<close> is an IEEE binary64 number. The floats of this program are never
  negative (of the one difference it takes, it takes the absolute value), so a float is
  modelled as the rational it is equal to, or as infinity. \<open>binary64 x\<close> is the float
  nearest to the rational \<open>x \<ge> 0\<close>, ties going to the even significand: with
  \<open>e = floor_log2 x\<close> the floats around \<open>x\<close> are the multiples of \<open>2 ^ (e - 52)\<close>, or of
  \<open>2 ^ (-1074)\<close> in the subnormal range, and a result of \<open>2 ^ 1024\<close> or more is infinity.
\<close>

datatype pyfloat = Finite rat | Infinity

function bit_length :: "int \<Rightarrow> nat" where
  \<comment> \<open>\<open>int.bit_length()\<close>\<close>
  "bit_length n = (if n \<le> 0 then 0 else Suc (bit_length (n div 2)))"
  by pat_completeness auto
termination
  by (relation "measure nat") auto

declare bit_length.simps [simp del]

definition pow2 :: "int \<Rightarrow> rat" where
  "pow2 e = (if 0 \<le> e then 2 ^ nat e else 1 / 2 ^ nat (- e))"

definition floor_log2 :: "rat \<Rightarrow> int" where
  \<comment> \<open>for \<open>x > 0\<close>, the \<open>e\<close> with \<open>2 ^ e \<le> x < 2 ^ (e + 1)\<close>\<close>
  "floor_log2 x =
     (if 1 \<le> x then int (bit_length \<lfloor>x\<rfloor>) - 1
      else (let k = int (bit_length \<lfloor>1 / x\<rfloor>) in if pow2 (1 - k) \<le> x then 1 - k else - k))"

definition round_half_even :: "rat \<Rightarrow> int" where
  "round_half_even x =
     (let n = \<lfloor>x\<rfloor>; r = x - of_int n
      in if r < 1 / 2 then n else if 1 / 2 < r then n + 1 else if even n then n else n + 1)"

definition binary64 :: "rat \<Rightarrow> pyfloat" where
  "binary64 x =
     (if x = 0 then Finite 0
      else (let q = pow2 (max (floor_log2 x) (- 1022) - 52);
                y = of_int (round_half_even (x / q)) * q
            in if 1024 \<le> floor_log2 y then Infinity else Finite y))"

fun float_le :: "pyfloat \<Rightarrow> pyfloat \<Rightarrow> bool" where
  \<comment> \<open>\<open>a <= b\<close>\<close>
  "float_le (Finite a) (Finite b) = (a \<le> b)"
| "float_le a Infinity = True"
| "float_le Infinity (Finite b) = False"

definition float_max :: "pyfloat \<Rightarrow> pyfloat \<Rightarrow> pyfloat" where
  \<comment> \<open>\<open>max(a, b)\<close>\<close>
  "float_max a b = (if float_le b a then a else b)"

definition float_div :: "nat \<Rightarrow> nat \<Rightarrow> pyfloat" where
  \<comment> \<open>\<open>a / b\<close> for two integers, \<open>b\<close> not zero: the quotient, correctly rounded\<close>
  "float_div a b = binary64 (of_nat a / of_nat b)"

fun round2 :: "pyfloat \<Rightarrow> pyfloat" where
  \<comment> \<open>\<open>round(x, 2)\<close>: the float nearest to the hundredth nearest to \<open>x\<close>, ties to even\<close>
  "round2 (Finite x) = binary64 (of_int (round_half_even (x * 100)) / 100)"
| "round2 Infinity = Infinity"

fun near_equal :: "pyfloat \<Rightarrow> pyfloat \<Rightarrow> bool" where
  \<comment> \<open>\<open>abs(a - b) < 0.001\<close>; with an infinite operand the difference is infinite or not a
      number, and the test is false\<close>
  "near_equal (Finite a) (Finite b) =
     (float_le (binary64 \<bar>a - b\<bar>) (binary64 (1 / 1000))
      \<and> binary64 \<bar>a - b\<bar> \<noteq> binary64 (1 / 1000))"
| "near_equal a b = False"

definition QUOTE_SIMILARITY_THRESHOLD :: pyfloat where
  "QUOTE_SIMILARITY_THRESHOLD = binary64 (60 / 100)"

definition STAT_MATCH_THRESHOLD :: pyfloat where
  "STAT_MATCH_THRESHOLD = binary64 (50 / 100)"

subsection \<open>Normalisation\<close>

fun collapse_from :: "bool \<Rightarrow> string \<Rightarrow> string" where
  \<comment> \<open>\<open>in_run\<close>: the character before was white space, and its run has got its blank\<close>
  "collapse_from in_run [] = []"
| "collapse_from in_run (c # cs) =
     (if is_space c
      then (if in_run then collapse_from True cs else CHR '' '' # collapse_from True cs)
      else c # collapse_from False cs)"

definition collapse_ws :: "string \<Rightarrow> string" where
  \<comment> \<open>\<^verbatim>\<open>re.sub(r"\s+", " ", text)\<close>\<close>
  "collapse_ws s = collapse_from False s"

text \<open>
  \<open>_normalize\<close>. The four dash and minus characters it replaces by a hyphen (U+2012,
  U+2013, U+2014, U+2212) lie outside the modelled range, so the replacements change
  nothing here.
\<close>

definition normalize_text :: "string \<Rightarrow> string" where
  "normalize_text text = strip (collapse_ws (lower text))"

fun split_acc :: "string \<Rightarrow> string \<Rightarrow> string list" where
  "split_acc w [] = (if w = [] then [] else [w])"
| "split_acc w (c # cs) =
     (if is_space c then (if w = [] then split_acc [] cs else w # split_acc [] cs)
      else split_acc (w @ [c]) cs)"

definition py_split :: "string \<Rightarrow> string list" where
  \<comment> \<open>\<open>str.split()\<close>\<close>
  "py_split s = split_acc [] s"

fun join_space :: "string list \<Rightarrow> string" where
  \<comment> \<open>\<open>" ".join(ws)\<close>\<close>
  "join_space [] = []"
| "join_space [w] = w"
| "join_space (w # v # ws) = w @ '' '' @ join_space (v # ws)"

subsection \<open>Quote verification\<close>

definition stop_words :: "string list" where
  "stop_words = [''the'', ''a'', ''an'', ''is'', ''are'', ''was'', ''were'', ''of'', ''in'', ''to'',
                 ''and'', ''for'', ''with'', ''that'', ''this'', ''by'']"

definition content_words :: "string \<Rightarrow> string list" where
  "content_words sub_norm =
     filter (\<lambda>w. w \<notin> set stop_words \<and> 2 < length w) (py_split sub_norm)"

definition word_ratio :: "string \<Rightarrow> string \<Rightarrow> pyfloat" where
  \<comment> \<open>\<open>words_found / len(content_words)\<close>, for a non-empty list of content words\<close>
  "word_ratio source_norm sub_norm =
     float_div (length (filter (\<lambda>w. sublist w source_norm) (content_words sub_norm)))
       (length (content_words sub_norm))"

text \<open>
  The windows of the second strategy in the order the two loops visit them: for each
  \<open>size_offset\<close> in \<open>range(-2, 4)\<close> whose window size is at least 3 and at most the
  number of source words, the start positions \<open>range(0, max(1, len(words) - win_size + 1), 2)\<close>.
\<close>

definition windows_of_size :: "string list \<Rightarrow> int \<Rightarrow> string list" where
  "windows_of_size ws win_size =
     (if win_size < 3 \<or> int (length ws) < win_size then []
      else map (\<lambda>k. join_space (take (nat win_size) (drop (2 * k) ws)))
             [0 ..< (max 1 (length ws - nat win_size + 1) + 1) div 2])"

definition windows :: "string list \<Rightarrow> nat \<Rightarrow> string list" where
  "windows ws sub_word_count =
     concat (map (\<lambda>size_offset. windows_of_size ws (int sub_word_count + size_offset))
                 [-2, -1, 0, 1, 2, 3])"

text \<open>
  The two loops over the windows: \<open>best_ratio\<close> is raised to the ratio of every window
  visited, and the first window whose ratio reaches the threshold ends the search with
  that window's ratio.
\<close>

fun scan_windows :: "(string \<Rightarrow> string \<Rightarrow> pyfloat) \<Rightarrow> pyfloat \<Rightarrow> string \<Rightarrow> pyfloat \<Rightarrow> string list
    \<Rightarrow> bool \<times> pyfloat" where
  "scan_windows ratio threshold sub_norm best_ratio [] =
     (float_le threshold best_ratio, best_ratio)"
| "scan_windows ratio threshold sub_norm best_ratio (window # rest) =
     (if float_le threshold (ratio sub_norm window) then (True, ratio sub_norm window)
      else scan_windows ratio threshold sub_norm
             (float_max best_ratio (ratio sub_norm window)) rest)"

text \<open>
  \<open>_fuzzy_contains\<close>. \<open>ratio a b\<close> stands for \<open>SequenceMatcher(None, a, b).ratio()\<close> of the
  standard library.
\<close>

definition fuzzy_contains ::
  "(string \<Rightarrow> string \<Rightarrow> pyfloat) \<Rightarrow> pyfloat \<Rightarrow> string \<Rightarrow> string \<Rightarrow> bool \<times> pyfloat" where
  "fuzzy_contains ratio threshold source substring =
     (let source_norm = normalize_text source; sub_norm = normalize_text substring
      in if sublist sub_norm source_norm then (True, Finite 1)
         else if length sub_norm = 0 then (False, Finite 0)
         else if content_words sub_norm \<noteq> []
                 \<and> float_le (binary64 (85 / 100)) (word_ratio source_norm sub_norm)
           then (True, word_ratio source_norm sub_norm)
         else scan_windows ratio threshold sub_norm
                (if content_words sub_norm \<noteq> []
                 then float_max (Finite 0) (word_ratio source_norm sub_norm) else Finite 0)
                (windows (py_split source_norm) (length (py_split sub_norm))))"

text \<open>
  \<open>_verify_quotes\<close>. The \<open>quote\<close> entry of a result is \<open>quote[:100]\<close> followed by an ellipsis
  (U+2026, outside the modelled range) when the quote is longer: \<open>quote_cut\<close> says whether
  the ellipsis is there.
\<close>

record quote_result =
  quote_text :: string
  quote_cut :: bool
  quote_grounded :: "bool option"
  quote_score :: pyfloat
  quote_too_short :: bool

definition verify_quote :: "(string \<Rightarrow> string \<Rightarrow> pyfloat) \<Rightarrow> string \<Rightarrow> string \<Rightarrow> quote_result" where
  "verify_quote ratio source_text quote =
     (if quote = [] \<or> length (strip quote) < 10
      then \<lparr>quote_text = quote, quote_cut = False, quote_grounded = None,
            quote_score = Finite 0, quote_too_short = True\<rparr>
      else (case fuzzy_contains ratio QUOTE_SIMILARITY_THRESHOLD source_text quote of
              (is_match, r) \<Rightarrow>
                \<lparr>quote_text = take 100 quote, quote_cut = (100 < length quote),
                 quote_grounded = Some is_match, quote_score = round2 r,
                 quote_too_short = False\<rparr>))"

definition verify_quotes :: "(string \<Rightarrow> string \<Rightarrow> pyfloat) \<Rightarrow> string list \<Rightarrow> string \<Rightarrow> quote_result list" where
  "verify_quotes ratio quotes source_text = map (verify_quote ratio source_text) quotes"

subsection \<open>The similarity ratio of difflib\<close>

text \<open>
  \<open>SequenceMatcher(None, a, b).ratio()\<close> is \<open>2.0 * M / (len(a) + len(b))\<close>, where \<open>M\<close> sums the
  matching blocks: the longest block common to \<open>a\<close> and \<open>b\<close> (the one that starts earliest
  in \<open>a\<close>, and of those the one that starts earliest in \<open>b\<close>), then recursively the pieces to
  its left and to its right. The definitions below follow that description for a second
  sequence shorter than 200 elements, where the library's automatic junk heuristic is off.
\<close>

fun common_prefix_len :: "'a list \<Rightarrow> 'a list \<Rightarrow> nat" where
  "common_prefix_len (x # xs) (y # ys) = (if x = y then Suc (common_prefix_len xs ys) else 0)"
| "common_prefix_len xs ys = 0"

fun best_in_b :: "'a list \<Rightarrow> 'a list \<Rightarrow> nat \<times> nat" where
  \<comment> \<open>the start in \<open>b\<close> and the length of the longest block that starts at the head of \<open>a\<close>\<close>
  "best_in_b xs [] = (0, 0)"
| "best_in_b xs (y # ys) =
     (let k = common_prefix_len xs (y # ys); (j, k') = best_in_b xs ys
      in if k' \<le> k then (0, k) else (Suc j, k'))"

fun find_longest_match :: "'a list \<Rightarrow> 'a list \<Rightarrow> nat \<times> nat \<times> nat" where
  "find_longest_match [] ys = (0, 0, 0)"
| "find_longest_match (x # xs) ys =
     (let (j, k) = best_in_b (x # xs) ys; (i', j', k') = find_longest_match xs ys
      in if k' \<le> k then (0, j, k) else (Suc i', j', k'))"

function matched :: "'a list \<Rightarrow> 'a list \<Rightarrow> nat" where
  "matched xs ys =
     (case find_longest_match xs ys of
        (i, j, k) \<Rightarrow>
          if k = 0 then 0
          else k + (if 0 < i \<and> 0 < j then matched (take i xs) (take j ys) else 0)
                 + (if i + k < length xs \<and> j + k < length ys
                    then matched (drop (i + k) xs) (drop (j + k) ys) else 0))"
  by pat_completeness auto
termination
proof -
  have cp: "common_prefix_len xs ys \<le> length xs" for xs ys :: "'a list"
    by (induction xs ys rule: common_prefix_len.induct) auto
  have bb: "snd (best_in_b xs ys) \<le> length xs" for xs ys :: "'a list"
    by (induction ys) (auto simp: Let_def cp split: prod.splits)
  have flm: "fst (find_longest_match xs ys) + snd (snd (find_longest_match xs ys)) \<le> length xs"
    for xs ys :: "'a list"
  proof (induction xs)
    case Nil
    show ?case by simp
  next
    case (Cons x xs)
    show ?case
      using Cons bb[of "x # xs" ys]
      by (auto simp: Let_def split: prod.splits)
  qed
  show ?thesis
    apply (relation "measure (\<lambda>(xs, ys). length xs)")
      apply simp
    subgoal premises prems for xs ys
      using prems flm[of xs ys] by (cases "find_longest_match xs ys") auto
    subgoal by auto
    done
qed

declare matched.simps [simp del]

text \<open>\<open>seq_ratio a b\<close>: the library's \<open>ratio()\<close>; two empty sequences have ratio 1.\<close>

definition seq_ratio :: "string \<Rightarrow> string \<Rightarrow> pyfloat" where
  "seq_ratio a b =
     (if length a + length b = 0 then Finite 1
      else float_div (2 * matched a b) (length a + length b))"

text \<open>
  The quote and the source of the specification's hyphenation example, and a source that
  holds a short sentence.
\<close>

definition hyphen_quote :: string where
  "hyphen_quote = ''significant improvement in overall survival''"

definition hyphen_source :: string where
  "hyphen_source = ''a significant improvement in overall sur- vival was observed''"

definition mat_source :: string where
  "mat_source = ''the cat sat on the mat''"

subsection \<open>Statistical evidence\<close>

datatype key_value =
    Metric string string
  | PValue string string
  | CI string string
  | CIBracket string string
  | Percent string
  | NValue string
  | Duration string string
  | Dosage string string

definition is_numch :: "char \<Rightarrow> bool" where
  \<comment> \<open>the class \<^verbatim>\<open>[\d.]\<close>\<close>
  "is_numch c = (is_digit c \<or> c = CHR ''.'')"

definition upper_char :: "char \<Rightarrow> char" where
  \<comment> \<open>\<open>str.upper()\<close> on the letters a to z; it is applied to the letters of a metric name\<close>
  "upper_char c =
     (let n = of_char c :: nat in if 97 \<le> n \<and> n \<le> 122 then char_of (n - 32) else c)"

text \<open>
  \<open>re.finditer\<close> for a pattern that never matches the empty string. The matcher \<open>m\<close> says
  whether the pattern matches at the start of a text, and then gives the extracted value
  and the length of the match; \<open>skip\<close> counts the characters of the last match still to be
  passed over.
\<close>

fun finditer :: "(string \<Rightarrow> ('a \<times> nat) option) \<Rightarrow> nat \<Rightarrow> string \<Rightarrow> 'a list" where
  "finditer m skip [] = []"
| "finditer m (Suc k) (c # cs) = finditer m k cs"
| "finditer m 0 (c # cs) =
     (case m (c # cs) of
        None \<Rightarrow> finditer m 0 cs
      | Some (v, len) \<Rightarrow> v # finditer m (len - 1) cs)"

text \<open>
  The eight patterns of \<open>_extract_key_values\<close>, each matched at the start of \<open>s\<close>. In all of
  them the character classes that follow one another are disjoint, so the greedy match is
  the only one: every run is taken whole.
\<close>

definition connector_rest :: "string \<Rightarrow> string option" where
  \<comment> \<open>\<^verbatim>\<open>(?:=|is|of|:)\<close>\<close>
  "connector_rest s =
     (case match_ci ''='' s of Some r \<Rightarrow> Some r | None \<Rightarrow>
      (case match_ci ''is'' s of Some r \<Rightarrow> Some r | None \<Rightarrow>
       (case match_ci ''of'' s of Some r \<Rightarrow> Some r | None \<Rightarrow>
        match_ci '':'' s)))"

definition metric_at :: "string \<Rightarrow> (key_value \<times> nat) option" where
  \<comment> \<open>\<^verbatim>\<open>(HR|RR|OR)\s*(?:=|is|of|:)\s*([\d.]+)\<close>, \<open>re.IGNORECASE\<close>\<close>
  "metric_at s =
     (if lower (take 2 s) \<in> {''hr'', ''rr'', ''or''}
      then (case connector_rest (dropWhile is_space (drop 2 s)) of
              None \<Rightarrow> None
            | Some r \<Rightarrow>
                (let r1 = dropWhile is_space r; v = takeWhile is_numch r1
                 in if v = [] then None
                    else Some (Metric (map upper_char (take 2 s)) v,
                               length s - length (dropWhile is_numch r1))))
      else None)"

definition is_cmp :: "char \<Rightarrow> bool" where
  "is_cmp c = (c = CHR ''<'' \<or> c = CHR ''>'' \<or> c = CHR ''='')"

definition p_value_at :: "string \<Rightarrow> (key_value \<times> nat) option" where
  \<comment> \<open>\<^verbatim>\<open>p\s*([<>=]+)\s*([\d.]+)\<close>, \<open>re.IGNORECASE\<close>\<close>
  "p_value_at s =
     (case match_ci ''p'' s of
        None \<Rightarrow> None
      | Some r \<Rightarrow>
          (let r1 = dropWhile is_space r; op = takeWhile is_cmp r1;
               r2 = dropWhile is_space (dropWhile is_cmp r1); v = takeWhile is_numch r2
           in if op = [] \<or> v = [] then None
              else Some (PValue op v, length s - length (dropWhile is_numch r2))))"

definition is_ci_sep :: "char \<Rightarrow> bool" where
  \<comment> \<open>the class \<^verbatim>\<open>[-\<endash>,\s]\<close>; its en dash lies outside the modelled range\<close>
  "is_ci_sep c = (c = CHR ''-'' \<or> c = CHR '','' \<or> is_space c)"

definition ci_at :: "string \<Rightarrow> (key_value \<times> nat) option" where
  \<comment> \<open>\<^verbatim>\<open>CI[:\s]*([\d.]+)\s*[-\<endash>,\s]+\s*([\d.]+)\<close>, \<open>re.IGNORECASE\<close>\<close>
  "ci_at s =
     (case match_ci ''CI'' s of
        None \<Rightarrow> None
      | Some r \<Rightarrow>
          (let r1 = dropWhile (\<lambda>c. c = CHR '':'' \<or> is_space c) r;
               low = takeWhile is_numch r1;
               r2 = dropWhile is_numch r1;
               sep = takeWhile is_ci_sep r2;
               r3 = dropWhile is_ci_sep r2;
               high = takeWhile is_numch r3
           in if low = [] \<or> sep = [] \<or> high = [] then None
              else Some (CI low high, length s - length (dropWhile is_numch r3))))"

definition is_br_sep :: "char \<Rightarrow> bool" where
  "is_br_sep c = (c = CHR '','' \<or> is_space c)"

definition ci_bracket_at :: "string \<Rightarrow> (key_value \<times> nat) option" where
  \<comment> \<open>\<^verbatim>\<open>[\[(]([\d.]+)\s*[,\s]\s*([\d.]+)[\])]\<close>: between the two numbers white space
      with at most one comma, and not nothing\<close>
  "ci_bracket_at s =
     (case s of
        [] \<Rightarrow> None
      | c # r \<Rightarrow>
          if c = CHR ''['' \<or> c = CHR ''(''
          then (let low = takeWhile is_numch r;
                    r1 = dropWhile is_numch r;
                    sep = takeWhile is_br_sep r1;
                    r2 = dropWhile is_br_sep r1;
                    high = takeWhile is_numch r2;
                    r3 = dropWhile is_numch r2
                in if low = [] \<or> sep = [] \<or> 1 < length (filter (\<lambda>c. c = CHR '','') sep)
                      \<or> high = [] \<or> r3 = [] \<or> (hd r3 \<noteq> CHR '']'' \<and> hd r3 \<noteq> CHR '')'')
                   then None
                   else Some (CIBracket low high, length s - length r3 + 1))
          else None)"

definition percent_at :: "string \<Rightarrow> (key_value \<times> nat) option" where
  \<comment> \<open>\<^verbatim>\<open>([\d.]+)\s*%\<close>\<close>
  "percent_at s =
     (let v = takeWhile is_numch s; r = dropWhile is_space (dropWhile is_numch s)
      in if v = [] \<or> r = [] \<or> hd r \<noteq> CHR ''%'' then None
         else Some (Percent v, length s - length r + 1))"

definition n_value_at :: "string \<Rightarrow> (key_value \<times> nat) option" where
  \<comment> \<open>\<^verbatim>\<open>[Nn]\s*=\s*([\d,]+)\<close>; the commas are removed from the value\<close>
  "n_value_at s =
     (case s of
        [] \<Rightarrow> None
      | c # r \<Rightarrow>
          if c = CHR ''N'' \<or> c = CHR ''n''
          then (case dropWhile is_space r of
                  [] \<Rightarrow> None
                | e # r1 \<Rightarrow>
                    if e = CHR ''=''
                    then (let r2 = dropWhile is_space r1;
                              v = takeWhile (\<lambda>c. is_digit c \<or> c = CHR '','') r2
                          in if v = [] then None
                             else Some (NValue (filter (\<lambda>c. c \<noteq> CHR '','') v),
                                        length s - length (dropWhile (\<lambda>c. is_digit c \<or> c = CHR '','') r2)))
                    else None)
          else None)"

definition word_opt_s :: "string \<Rightarrow> string \<Rightarrow> (string \<times> string) option" where
  \<comment> \<open>a word with an optional \<open>s\<close>, as in \<^verbatim>\<open>months?\<close>: the matched text and the rest\<close>
  "word_opt_s w s =
     (case match_ci w s of
        None \<Rightarrow> None
      | Some r \<Rightarrow>
          (case match_ci ''s'' r of
             Some r' \<Rightarrow> Some (take (length w + 1) s, r')
           | None \<Rightarrow> Some (take (length w) s, r)))"

definition duration_unit :: "string \<Rightarrow> (string \<times> string) option" where
  \<comment> \<open>\<^verbatim>\<open>(months?|years?|weeks?)\<close>\<close>
  "duration_unit s =
     (case word_opt_s ''month'' s of Some u \<Rightarrow> Some u | None \<Rightarrow>
      (case word_opt_s ''year'' s of Some u \<Rightarrow> Some u | None \<Rightarrow>
       word_opt_s ''week'' s))"

definition duration_at :: "string \<Rightarrow> (key_value \<times> nat) option" where
  \<comment> \<open>\<^verbatim>\<open>([\d.]+)\s*(months?|years?|weeks?)\<close>, \<open>re.IGNORECASE\<close>; the unit in lower case\<close>
  "duration_at s =
     (let v = takeWhile is_numch s
      in if v = [] then None
         else (case duration_unit (dropWhile is_space (dropWhile is_numch s)) of
                 None \<Rightarrow> None
               | Some (u, r) \<Rightarrow> Some (Duration v (lower u), length s - length r)))"

definition dosage_unit :: "string \<Rightarrow> (string \<times> string) option" where
  \<comment> \<open>\<^verbatim>\<open>(Gy|mg/?m[\<twosuperior>2]?)\<close>: the matched text and the rest\<close>
  "dosage_unit s =
     (case match_ci ''Gy'' s of
        Some r \<Rightarrow> Some (take 2 s, r)
      | None \<Rightarrow>
          (case match_ci ''mg'' s of
             None \<Rightarrow> None
           | Some r \<Rightarrow>
               (let r1 = (case match_ci ''/'' r of Some q \<Rightarrow> q | None \<Rightarrow> r)
                in case match_ci ''m'' r1 of
                     None \<Rightarrow> None
                   | Some r2 \<Rightarrow>
                       (let r3 = (if r2 \<noteq> [] \<and> (hd r2 = CHR ''2'' \<or> hd r2 = CHR 0xB2)
                                  then tl r2 else r2)
                        in Some (take (length s - length r3) s, r3)))))"

definition dosage_at :: "string \<Rightarrow> (key_value \<times> nat) option" where
  \<comment> \<open>\<^verbatim>\<open>([\d.]+)\s*(Gy|mg/?m[\<twosuperior>2]?)\<close>, \<open>re.IGNORECASE\<close>\<close>
  "dosage_at s =
     (let v = takeWhile is_numch s
      in if v = [] then None
         else (case dosage_unit (dropWhile is_space (dropWhile is_numch s)) of
                 None \<Rightarrow> None
               | Some (u, r) \<Rightarrow> Some (Dosage v u, length s - length r)))"

definition extract_key_values :: "string \<Rightarrow> key_value list" where
  "extract_key_values text =
     finditer metric_at 0 text @ finditer p_value_at 0 text @ finditer ci_at 0 text
     @ finditer ci_bracket_at 0 text @ finditer percent_at 0 text @ finditer n_value_at 0 text
     @ finditer duration_at 0 text @ finditer dosage_at 0 text"

definition decimal_value :: "string \<Rightarrow> rat" where
  \<comment> \<open>the number that digits with at most one dot denote\<close>
  "decimal_value s =
     (let ip = takeWhile is_digit s; fp = drop (length ip + 1) s
      in of_nat (nat_of_digits ip) + of_nat (nat_of_digits fp) / 10 ^ length fp)"

definition py_float :: "string \<Rightarrow> pyfloat option" where
  \<comment> \<open>\<open>float(s)\<close> on a string of digits and dots: \<open>None\<close> stands for \<open>ValueError\<close>, which is
      raised when there are two dots or no digit\<close>
  "py_float s =
     (if 1 < length (filter (\<lambda>c. c = CHR ''.'') s) \<or> filter is_digit s = [] then None
      else Some (binary64 (decimal_value s)))"

definition find_value_in_source :: "string \<Rightarrow> string \<Rightarrow> bool" where
  "find_value_in_source v source_norm =
     (sublist v source_norm \<or> (prefix ''0.'' v \<and> sublist (tl v) source_norm))"

fun label_of :: "key_value \<Rightarrow> string" where
  "label_of (Metric name v) = name @ ''='' @ v"
| "label_of (CI low high) = ''CI '' @ low @ ''-'' @ high"
| "label_of (CIBracket low high) = ''['' @ low @ '', '' @ high @ '']''"
| "label_of (PValue op v) = ''p'' @ op @ v"
| "label_of (Percent v) = v @ ''%''"
| "label_of (NValue v) = ''N='' @ v"
| "label_of (Duration v unit) = v @ '' '' @ unit"
| "label_of (Dosage v unit) = v @ '' '' @ unit"

text \<open>The lookup sets that \<open>_verify_stat_evidence\<close> builds from the values of the source.\<close>

definition source_metrics :: "key_value list \<Rightarrow> (string \<times> string) set" where
  "source_metrics svs =
     set (concat (map (\<lambda>sv. case sv of Metric n v \<Rightarrow> [(n, v)] | _ \<Rightarrow> []) svs))"

definition source_ci_bounds :: "key_value list \<Rightarrow> string set" where
  "source_ci_bounds svs =
     set (concat (map (\<lambda>sv. case sv of CI l h \<Rightarrow> [l, h] | CIBracket l h \<Rightarrow> [l, h] | _ \<Rightarrow> [])
                      svs))"

definition source_p_values :: "key_value list \<Rightarrow> string list" where
  "source_p_values svs = concat (map (\<lambda>sv. case sv of PValue op v \<Rightarrow> [v] | _ \<Rightarrow> []) svs)"

definition p_value_matches :: "string \<Rightarrow> pyfloat \<Rightarrow> string \<Rightarrow> bool" where
  \<comment> \<open>one round of the loop over the p-values of the source; a source value that does not
      parse is passed over\<close>
  "p_value_matches op claim_p sp =
     (case py_float sp of
        None \<Rightarrow> False
      | Some source_p \<Rightarrow>
          if op = ''<'' \<or> op = ''<='' then float_le source_p claim_p
          else if op = ''='' then near_equal source_p claim_p
          else False)"

text \<open>
  Whether one value of the claim is found. A claimed p-value that is not a decimal number
  makes \<open>float\<close> raise \<open>ValueError\<close>, outside of any handler.
\<close>

fun value_found :: "string \<Rightarrow> key_value list \<Rightarrow> key_value \<Rightarrow> py_error + bool" where
  "value_found source_norm svs (Metric name v) =
     Inr ((name, v) \<in> source_metrics svs
          \<or> (find_value_in_source v source_norm \<and> sublist (lower name) source_norm))"
| "value_found source_norm svs (CI low high) =
     Inr ((low \<in> source_ci_bounds svs \<or> find_value_in_source low source_norm)
          \<and> (high \<in> source_ci_bounds svs \<or> find_value_in_source high source_norm))"
| "value_found source_norm svs (CIBracket low high) =
     Inr ((low \<in> source_ci_bounds svs \<or> find_value_in_source low source_norm)
          \<and> (high \<in> source_ci_bounds svs \<or> find_value_in_source high source_norm))"
| "value_found source_norm svs (PValue op v) =
     (case py_float v of
        None \<Rightarrow> Inl ValueError
      | Some claim_p \<Rightarrow>
          Inr (list_ex (p_value_matches op claim_p) (source_p_values svs)
               \<or> find_value_in_source v source_norm))"
| "value_found source_norm svs (Percent v) = Inr (find_value_in_source v source_norm)"
| "value_found source_norm svs (NValue v) = Inr (find_value_in_source v source_norm)"
| "value_found source_norm svs (Duration v unit) = Inr (find_value_in_source v source_norm)"
| "value_found source_norm svs (Dosage v unit) = Inr (find_value_in_source v source_norm)"

text \<open>
  The loop over the values of the claim: the labels found and the labels missing, in
  order, or the first error.
\<close>

fun classify :: "string \<Rightarrow> key_value list \<Rightarrow> key_value list
    \<Rightarrow> py_error + (string list \<times> string list)" where
  "classify source_norm svs [] = Inr ([], [])"
| "classify source_norm svs (cv # cvs) =
     (case value_found source_norm svs cv of
        Inl e \<Rightarrow> Inl e
      | Inr is_found \<Rightarrow>
          (case classify source_norm svs cvs of
             Inl e \<Rightarrow> Inl e
           | Inr (found, missing) \<Rightarrow>
               if is_found then Inr (label_of cv # found, missing)
               else Inr (found, label_of cv # missing)))"

definition dedup_first :: "'a list \<Rightarrow> 'a list" where
  \<comment> \<open>\<open>list(dict.fromkeys(xs))\<close>: the first occurrence of every element, in order\<close>
  "dedup_first xs = rev (remdups (rev xs))"

record stat_check =
  st_grounded :: "bool option"
  st_score :: pyfloat
  st_found :: "string list"
  st_missing :: "string list"
  st_detail :: string

definition verify_stat_evidence :: "string \<Rightarrow> string \<Rightarrow> py_error + stat_check" where
  "verify_stat_evidence stat_text source_text =
     (let claim_values = extract_key_values stat_text
      in if claim_values = []
         then Inr \<lparr>st_grounded = None, st_score = Finite 0, st_found = [], st_missing = [],
                   st_detail = ''no_stats_to_verify''\<rparr>
         else (case classify (normalize_text source_text) (extract_key_values source_text)
                      claim_values of
                 Inl e \<Rightarrow> Inl e
               | Inr (found_all, missing_all) \<Rightarrow>
                   (let found = dedup_first found_all; missing = dedup_first missing_all;
                        total = length found + length missing;
                        score = (if 0 < total then float_div (length found) total else Finite 0)
                    in Inr \<lparr>st_grounded = Some (float_le STAT_MATCH_THRESHOLD score),
                             st_score = round2 score, st_found = found,
                             st_missing = missing, st_detail = []\<rparr>)))"

text \<open>
  Claim C1 as amended says when a value of the claim is found. These two definitions
  follow its words, not the code. A number occurs in the source when the normalised source
  text contains it as written or, if it begins with \<open>0.\<close>, without that zero. A metric is
  found when its number occurs and its name, in lower case, occurs as well; a confidence
  interval when both its bounds occur; a p-value when some p-value of the source that
  reads as a float compares with it as the operator says (at most the claimed one for
  \<open><\<close> and \<open><=\<close>, less than a thousandth away for \<open>=\<close>), or when its number occurs; every
  other value when its number occurs.
\<close>

definition occurs_in :: "string \<Rightarrow> string \<Rightarrow> bool" where
  "occurs_in v source_text =
     (sublist v (normalize_text source_text)
      \<or> (prefix ''0.'' v \<and> sublist (drop 1 v) (normalize_text source_text)))"

fun spec_found :: "string \<Rightarrow> key_value \<Rightarrow> bool" where
  "spec_found source_text (Metric name v) =
     (occurs_in v source_text \<and> sublist (lower name) (normalize_text source_text))"
| "spec_found source_text (CI low high) = (occurs_in low source_text \<and> occurs_in high source_text)"
| "spec_found source_text (CIBracket low high) =
     (occurs_in low source_text \<and> occurs_in high source_text)"
| "spec_found source_text (PValue op v) =
     (list_ex (\<lambda>sv. case sv of
                  PValue sop sp \<Rightarrow>
                    (case (py_float sp, py_float v) of
                       (Some source_p, Some claim_p) \<Rightarrow>
                         ((op = ''<'' \<or> op = ''<='') \<and> float_le source_p claim_p)
                         \<or> (op = ''='' \<and> near_equal source_p claim_p)
                     | _ \<Rightarrow> False)
                | _ \<Rightarrow> False)
        (extract_key_values source_text)
      \<or> occurs_in v source_text)"
| "spec_found source_text (Percent v) = occurs_in v source_text"
| "spec_found source_text (NValue v) = occurs_in v source_text"
| "spec_found source_text (Duration v unit) = occurs_in v source_text"
| "spec_found source_text (Dosage v unit) = occurs_in v source_text"

definition bad_p_value :: "key_value \<Rightarrow> bool" where
  \<comment> \<open>a p-value whose number does not read as a float\<close>
  "bad_p_value cv = (case cv of PValue op v \<Rightarrow> py_float v = None | _ \<Rightarrow> False)"

text \<open>The evidence and the source sentence of the specification's example, and three more pairs.\<close>

definition hr_evidence :: string where
  "hr_evidence = ''HR=0.64, 95% CI 0.58-0.71, p<0.001''"

definition hr_sentence :: string where
  "hr_sentence = ''hazard ratio of 0.64 (95% CI: 0.58 to 0.71), p<0.001''"

definition size_evidence :: string where
  "size_evidence = ''N=12''"

definition size_source :: string where
  "size_source = ''published in 2012''"

definition zero_evidence :: string where
  "zero_evidence = ''HR=0.64, p<0.05''"

definition zero_source :: string where
  "zero_source = ''The HR was 1.64 (P = 0.0312).''"

definition dot_evidence :: string where
  "dot_evidence = ''OR 2.1, p<0.001.''"

subsection \<open>The grounding report\<close>

text \<open>
  The structured result as far as \<open>validate_grounding\<close> reads it. A key finding is a dict
  with the strings \<open>finding\<close> and \<open>statistical_evidence\<close> (each empty when the key is
  absent), or a plain string, or something else, which is passed over. The lists are empty
  when the key is absent or its value is not a list; \<open>clinical_implications\<close> is a string
  or a list of strings. Quotes, adverse events and implications are strings.
\<close>

datatype finding = FindingDict string string | FindingStr string | FindingOther

datatype implications = ImplText string | ImplList "string list" | ImplAbsent

record structured_result =
  key_findings :: "finding list"
  supporting_quotes :: "string list"
  adverse_events :: "string list"
  serious_adverse_events :: "string list"
  clinical_implications :: implications

datatype claim_type = KeyFinding | SafetyClaim | ClinicalImplication

record llm_claim =
  claim_text :: string
  claim_evidence :: string
  claim_kind :: claim_type
  claim_index :: nat

text \<open>
  A verdict of the judge. \<open>v_grounded\<close> is \<open>None\<close> when the key is absent, null or neither
  \<open>true\<close> nor \<open>false\<close>; \<open>v_severity\<close> and \<open>v_reason\<close> are \<open>None\<close> when the key is absent.
\<close>

record llm_verdict =
  v_grounded :: "bool option"
  v_severity :: "string option"
  v_reason :: "string option"

text \<open>An entry of \<open>details["key_findings"]\<close> or \<open>details["safety_claims"]\<close>.\<close>

record verdict_entry =
  ve_claim :: string
  ve_cut :: bool
  ve_grounded :: "bool option"
  ve_severity :: string
  ve_reason :: string

record stat_entry =
  se_finding :: string
  se_cut :: bool
  se_evidence :: string
  se_check :: stat_check

record grounding_details =
  d_key_findings :: "verdict_entry list"
  d_supporting_quotes :: "quote_result list"
  d_safety_claims :: "verdict_entry list"
  d_statistical_evidence :: "stat_entry list"

datatype status = Grounded | PartiallyGrounded | ReviewNeeded

record grounding_report =
  overall_score :: pyfloat
  overall_status :: status
  total_claims :: nat
  grounded_claims :: nat
  warnings :: nat
  errors :: nat
  details :: grounding_details

text \<open>
  Step 1: the statistical check of every dict finding, and the claims queued for the
  judge. \<open>i\<close> is the position of the finding in the list.
\<close>

fun stat_entries :: "string \<Rightarrow> finding list \<Rightarrow> py_error + stat_entry list" where
  "stat_entries source_text [] = Inr []"
| "stat_entries source_text (FindingDict finding_text stat_evidence # fs) =
     (case (if stat_evidence \<noteq> [] then verify_stat_evidence stat_evidence source_text
            else Inr \<lparr>st_grounded = None, st_score = Finite 0, st_found = [], st_missing = [],
                      st_detail = ''no_evidence_provided''\<rparr>) of
        Inl e \<Rightarrow> Inl e
      | Inr stat_check \<Rightarrow>
          (case stat_entries source_text fs of
             Inl e \<Rightarrow> Inl e
           | Inr rest \<Rightarrow>
               Inr (\<lparr>se_finding = take 120 finding_text, se_cut = (120 < length finding_text),
                     se_evidence = stat_evidence, se_check = stat_check\<rparr> # rest)))"
| "stat_entries source_text (f # fs) = stat_entries source_text fs"

fun finding_claims :: "nat \<Rightarrow> finding list \<Rightarrow> llm_claim list" where
  "finding_claims i [] = []"
| "finding_claims i (FindingDict finding_text stat_evidence # fs) =
     \<lparr>claim_text = finding_text, claim_evidence = stat_evidence, claim_kind = KeyFinding,
      claim_index = i\<rparr> # finding_claims (Suc i) fs"
| "finding_claims i (FindingStr s # fs) =
     \<lparr>claim_text = s, claim_evidence = [], claim_kind = KeyFinding, claim_index = i\<rparr>
       # finding_claims (Suc i) fs"
| "finding_claims i (FindingOther # fs) = finding_claims (Suc i) fs"

fun append_claims :: "claim_type \<Rightarrow> string \<Rightarrow> llm_claim list \<Rightarrow> string list \<Rightarrow> llm_claim list" where
  \<comment> \<open>the loops that append one claim per text, with \<open>index = len(claims_for_llm)\<close>\<close>
  "append_claims k pre claims [] = claims"
| "append_claims k pre claims (t # ts) =
     append_claims k pre
       (claims @ [\<lparr>claim_text = pre @ t, claim_evidence = [], claim_kind = k,
                    claim_index = length claims\<rparr>]) ts"

definition claims_for_llm :: "structured_result \<Rightarrow> llm_claim list" where
  "claims_for_llm output =
     (let c1 = finding_claims 0 (key_findings output);
          c2 = append_claims SafetyClaim ''Adverse event: '' c1 (adverse_events output);
          c3 = append_claims SafetyClaim ''Serious adverse event: '' c2 (serious_adverse_events output)
      in case clinical_implications output of
           ImplText t \<Rightarrow> if t \<noteq> [] then append_claims ClinicalImplication [] c3 [t] else c3
         | ImplList ts \<Rightarrow> append_claims ClinicalImplication [] c3 ts
         | ImplAbsent \<Rightarrow> c3)"

text \<open>
  \<open>_verify_claims_with_llm\<close>. The argument \<open>judge\<close> stands for the body of its \<open>try\<close> block:
  the request to the model, the parsing of the answer and the search for the list of
  verdicts. It gives the message of the exception that was raised, or the list; an element
  of the list that is not a dict is \<open>None\<close>.
\<close>

definition verify_claims_with_llm ::
  "(llm_claim list \<Rightarrow> string \<Rightarrow> string + llm_verdict option list)
   \<Rightarrow> llm_claim list \<Rightarrow> string \<Rightarrow> llm_verdict option list" where
  "verify_claims_with_llm judge claims source_text =
     (if claims = [] then []
      else case judge claims source_text of
             Inl msg \<Rightarrow>
               map (\<lambda>c. Some \<lparr>v_grounded = None, v_severity = Some ''warning'',
                                v_reason = Some (''Verification failed: '' @ msg)\<rparr>) claims
           | Inr verdicts \<Rightarrow> verdicts)"

text \<open>
  The loop over \<open>zip(claims_for_llm, llm_verdicts)\<close>: every entry with the type of its
  claim. A verdict that is not a dict has no \<open>get\<close>, which raises \<open>AttributeError\<close>.
\<close>

fun verdict_entries :: "llm_claim list \<Rightarrow> llm_verdict option list
    \<Rightarrow> py_error + (claim_type \<times> verdict_entry) list" where
  "verdict_entries (c # cs) (Some v # vs) =
     (case verdict_entries cs vs of
        Inl e \<Rightarrow> Inl e
      | Inr rest \<Rightarrow>
          Inr ((claim_kind c,
                \<lparr>ve_claim = take 120 (claim_text c), ve_cut = (120 < length (claim_text c)),
                 ve_grounded = v_grounded v,
                 ve_severity = (case v_severity v of None \<Rightarrow> ''warning'' | Some s \<Rightarrow> s),
                 ve_reason = (case v_reason v of None \<Rightarrow> [] | Some r \<Rightarrow> r)\<rparr>) # rest))"
| "verdict_entries (c # cs) (None # vs) = Inl AttributeError"
| "verdict_entries cs vs = Inr []"

text \<open>The three counting loops; each returns what it adds to the counters.\<close>

fun count_verdicts :: "verdict_entry list \<Rightarrow> nat \<times> nat \<times> nat" where
  \<comment> \<open>grounded, warnings, errors\<close>
  "count_verdicts [] = (0, 0, 0)"
| "count_verdicts (v # vs) =
     (case count_verdicts vs of
        (g, w, e) \<Rightarrow>
          if ve_severity v = ''ok'' \<or> ve_grounded v = Some True then (Suc g, w, e)
          else if ve_severity v = ''warning'' then (g, Suc w, e)
          else if ve_severity v = ''error'' \<or> ve_grounded v = Some False then (g, w, Suc e)
          else (g, w, e))"

fun count_quotes :: "quote_result list \<Rightarrow> nat \<times> nat \<times> nat" where
  "count_quotes [] = (0, 0, 0)"
| "count_quotes (q # qs) =
     (case count_quotes qs of
        (g, w, e) \<Rightarrow>
          if quote_grounded q = Some True then (Suc g, w, e)
          else if quote_grounded q = Some False then (g, w, Suc e)
          else (g, Suc w, e))"

fun count_stats :: "stat_entry list \<Rightarrow> nat \<times> nat \<times> nat" where
  \<comment> \<open>grounded, errors, and what is added to the total\<close>
  "count_stats [] = (0, 0, 0)"
| "count_stats (s # ss) =
     (case count_stats ss of
        (g, e, t) \<Rightarrow>
          if st_grounded (se_check s) = Some True then (Suc g, e, Suc t)
          else if st_grounded (se_check s) = Some False then (g, Suc e, Suc t)
          else (g, e, t))"

definition status_of :: "pyfloat \<Rightarrow> nat \<Rightarrow> status" where
  "status_of score n_errors =
     (if float_le (binary64 (85 / 100)) score \<and> n_errors = 0 then Grounded
      else if float_le (binary64 (6 / 10)) score \<or> n_errors \<le> 1 then PartiallyGrounded
      else ReviewNeeded)"

definition validate_grounding ::
  "(string \<Rightarrow> string \<Rightarrow> pyfloat)
   \<Rightarrow> (llm_claim list \<Rightarrow> string \<Rightarrow> string + llm_verdict option list)
   \<Rightarrow> structured_result \<Rightarrow> string \<Rightarrow> bool \<Rightarrow> py_error + grounding_report" where
  "validate_grounding ratio judge output source_text skip_llm =
     (case stat_entries source_text (key_findings output) of
        Inl e \<Rightarrow> Inl e
      | Inr stat_results \<Rightarrow>
          (let quote_results = verify_quotes ratio (supporting_quotes output) source_text;
               claims = claims_for_llm output;
               llm_verdicts =
                 (if skip_llm
                  then map (\<lambda>c. Some \<lparr>v_grounded = Some True, v_severity = Some ''ok'',
                                         v_reason = Some ''Accepted after self-correction''\<rparr>) claims
                  else verify_claims_with_llm judge claims source_text)
           in case verdict_entries claims llm_verdicts of
                Inl e \<Rightarrow> Inl e
              | Inr typed \<Rightarrow>
                  (let all_verdicts = map snd typed;
                       (g1, w1, e1) = count_verdicts all_verdicts;
                       (g2, w2, e2) = count_quotes quote_results;
                       (g3, e3, t3) = count_stats stat_results;
                       total = length all_verdicts + length quote_results + t3;
                       grounded = g1 + g2 + g3;
                       n_errors = e1 + e2 + e3;
                       score = (if 0 < total then float_div grounded total else Finite 0)
                   in Inr \<lparr>overall_score = round2 score,
                            overall_status = status_of score n_errors,
                            total_claims = total, grounded_claims = grounded,
                            warnings = w1 + w2, errors = n_errors,
                            details =
                              \<lparr>d_key_findings = map snd (filter (\<lambda>p. fst p = KeyFinding) typed),
                               d_supporting_quotes = quote_results,
                               d_safety_claims = map snd (filter (\<lambda>p. fst p = SafetyClaim) typed),
                               d_statistical_evidence = stat_results\<rparr>\<rparr>)))"

text \<open>
  A result with eleven adverse events and two quotes that are too short to be checked, and
  a judge that accepts every claim.
\<close>

definition eleven_events :: structured_result where
  "eleven_events =
     \<lparr>key_findings = [], supporting_quotes = [''short'', ''tiny''],
      adverse_events = replicate 11 ''nausea'', serious_adverse_events = [],
      clinical_implications = ImplAbsent\<rparr>"

definition accepting_judge :: "llm_claim list \<Rightarrow> string \<Rightarrow> string + llm_verdict option list" where
  "accepting_judge claims source_text =
     Inr (map (\<lambda>c. Some \<lparr>v_grounded = Some True, v_severity = Some ''ok'',
                          v_reason = Some ''supported''\<rparr>) claims)"

(*DEFS*)

section \<open>Verified properties\<close>

subsection \<open>Evaluation of the character classes\<close>

text \<open>
  The character classes and the case mappings, stated on the eight bits of a character:
  with these the simplifier evaluates the scanners on a concrete text.
\<close>

lemma char_of_nat_eval:
  "char_of (n :: nat) = Char (odd n) (odd (n div 2)) (odd (n div 4)) (odd (n div 8))
     (odd (n div 16)) (odd (n div 32)) (odd (n div 64)) (odd (n div 128))"
  by (simp add: char_of_def bit_iff_odd_drop_bit drop_bit_eq_div)

lemma is_digit_Char:
  "is_digit (Char b0 b1 b2 b3 b4 b5 b6 b7) \<longleftrightarrow>
     b4 \<and> b5 \<and> \<not> b6 \<and> \<not> b7 \<and> (b3 \<longrightarrow> \<not> b2 \<and> \<not> b1)"
  by (cases b0; cases b1; cases b2; cases b3; cases b4; cases b5; cases b6; cases b7;
      simp add: is_digit_def)

lemma is_space_Char:
  "is_space (Char b0 b1 b2 b3 b4 b5 b6 b7) \<longleftrightarrow>
     (\<not> b7 \<and> \<not> b6 \<and> \<not> b5 \<and> \<not> b4 \<and> b3 \<and> \<not> (b2 \<and> b1) \<and> (b2 \<or> b1 \<or> b0))
     \<or> (\<not> b7 \<and> \<not> b6 \<and> \<not> b5 \<and> b4 \<and> b3 \<and> b2)
     \<or> (b5 \<and> \<not> b0 \<and> \<not> b1 \<and> \<not> b2 \<and> \<not> b3 \<and> \<not> b4 \<and> \<not> b6)
     \<or> (b7 \<and> \<not> b6 \<and> \<not> b5 \<and> \<not> b4 \<and> \<not> b3 \<and> b2 \<and> \<not> b1 \<and> b0)"
  by (cases b0; cases b1; cases b2; cases b3; cases b4; cases b5; cases b6; cases b7;
      simp add: is_space_def)

lemma lower_char_Char:
  "lower_char (Char b0 b1 b2 b3 b4 b5 b6 b7) =
     Char b0 b1 b2 b3 b4
       (b5 \<or> (b6 \<and> (if b7 then \<not> (b4 \<and> b3 \<and> b2 \<and> b1 \<and> b0) \<and> \<not> (b4 \<and> \<not> b3 \<and> b2 \<and> b1 \<and> b0)
                      else (b4 \<or> b3 \<or> b2 \<or> b1 \<or> b0) \<and> \<not> (b4 \<and> b3 \<and> (b2 \<or> (b1 \<and> b0))))))
       b6 b7"
  by (cases b0; cases b1; cases b2; cases b3; cases b4; cases b5; cases b6; cases b7;
      simp add: lower_char_def char_of_nat_eval)

lemma upper_char_Char:
  "upper_char (Char b0 b1 b2 b3 b4 b5 b6 b7) =
     Char b0 b1 b2 b3 b4
       (b5 \<and> \<not> (b6 \<and> \<not> b7 \<and> (b4 \<or> b3 \<or> b2 \<or> b1 \<or> b0) \<and> \<not> (b4 \<and> b3 \<and> (b2 \<or> (b1 \<and> b0)))))
       b6 b7"
  by (cases b0; cases b1; cases b2; cases b3; cases b4; cases b5; cases b6; cases b7;
      simp add: upper_char_def char_of_nat_eval)

lemmas text_eval = is_space_Char is_digit_Char lower_char_Char upper_char_Char is_numch_def lower_def
  Let_def strip_def collapse_ws_def normalize_text_def py_split_def


lemmas stat_eval = text_eval metric_at_def connector_rest_def p_value_at_def is_cmp_def ci_at_def
  is_ci_sep_def ci_bracket_at_def is_br_sep_def percent_at_def n_value_at_def word_opt_s_def
  duration_unit_def duration_at_def dosage_unit_def dosage_at_def extract_key_values_def
  nat_of_digits_def

subsection \<open>Evaluation of the floats\<close>

text \<open>
  With these the simplifier evaluates \<open>binary64\<close> on a quotient of two numerals.
\<close>

lemma bit_length_numeral:
  "bit_length (numeral (Num.Bit0 n)) = Suc (bit_length (numeral n))"
  "bit_length (numeral (Num.Bit1 n)) = Suc (bit_length (numeral n))"
  "bit_length 1 = 1"
  "bit_length 0 = 0"
  by (simp_all add: bit_length.simps[of "numeral (Num.Bit0 n)"]
      bit_length.simps[of "numeral (Num.Bit1 n)"] bit_length.simps[of 1] bit_length.simps[of 0])

lemma floor_fraction:
  "\<lfloor>numeral a / numeral b :: rat\<rfloor> = numeral a div numeral b"
  "\<lfloor>1 / numeral b :: rat\<rfloor> = 1 div numeral b"
  using floor_divide_of_int_eq[of "numeral a" "numeral b", where ?'a = rat]
    floor_divide_of_int_eq[of 1 "numeral b", where ?'a = rat]
  by simp_all

lemmas float_eval = binary64_def floor_log2_def bit_length_numeral pow2_def round_half_even_def
  Let_def floor_fraction float_div_def float_max_def

subsection \<open>Text Chunker\<close>

lemma strip_no_space_ends:
  assumes "s \<noteq> []" "\<not> is_space (hd s)" "\<not> is_space (last s)"
  shows "strip s = s"
proof -
  have a: "dropWhile is_space s = s"
    using assms(1,2) by (cases s) auto
  have "rev s \<noteq> []" "\<not> is_space (hd (rev s))"
    using assms(1,3) by (auto simp: hd_rev)
  then have b: "dropWhile is_space (rev s) = rev s"
    by (cases "rev s") auto
  show ?thesis by (simp add: strip_def a b)
qed

lemma strip_replicate_space:
  assumes "\<not> is_space c" "0 < n" "is_space d"
  shows "strip (replicate n c @ [d]) = replicate n c"
proof -
  have a: "dropWhile is_space (replicate n c @ [d]) = replicate n c @ [d]"
    using assms(1,2) by (cases n) auto
  have b: "dropWhile is_space (replicate n c) = replicate n c"
    using assms(1,2) by (cases n) auto
  show ?thesis
    using assms by (simp add: strip_def b)
qed

lemma chunk_by_size_bound:
  assumes "chunk_by_size m text = Inr cs" "c \<in> set cs"
  shows "int (length (content c)) \<le> m"
  using assms by (auto simp: chunk_by_size_def Let_def split: if_splits)

text \<open>
  Claim C3 says that no chunk exceeds \<open>MAX_CHUNK_CHARS\<close> on either path. The fixed-size path
  keeps the bound (\<open>chunk_by_size_bound\<close>); the section path does not. With the default
  budget of 30000, a section of 30001 characters is emitted whole; and with a budget of 10,
  two sections of 5 and 4 characters are merged into a chunk of 11, because the test
  \<open>len(buffer_content) + len(chunk["content"]) < max_size\<close> leaves the separator out.
\<close>

theorem section_chunk_exceeds_budget:
  "split_into_sections 30000 (replicate 30001 CHR ''a'' @ '' bbbbb'')
     [\<lparr>sec_heading = ''A'', sec_offset = Some 0\<rparr>, \<lparr>sec_heading = ''B'', sec_offset = Some 30002\<rparr>]
   = Inr [\<lparr>heading = ''A'', content = replicate 30001 CHR ''a''\<rparr>,
          \<lparr>heading = ''B'', content = ''bbbbb''\<rparr>]
   \<and> length (replicate 30001 CHR ''a'') = 30001
   \<and> split_into_sections 10 ''aaaaaaaa bbbbb cccc''
     [\<lparr>sec_heading = ''A'', sec_offset = Some 0\<rparr>, \<lparr>sec_heading = ''B'', sec_offset = Some 9\<rparr>,
      \<lparr>sec_heading = ''C'', sec_offset = Some 15\<rparr>]
   = Inr [\<lparr>heading = ''A'', content = ''aaaaaaaa''\<rparr>,
          \<lparr>heading = ''B + C'', content = ''bbbbb'' @ newline2 @ ''cccc''\<rparr>]
   \<and> length (''bbbbb'' @ newline2 @ ''cccc'') = 11"
proof -
  have sp: "is_space CHR '' ''" "\<not> is_space CHR ''a''" "\<not> is_space CHR ''b''"
    by (simp_all add: is_space_def)
  have s1: "strip (replicate 30001 CHR ''a'' @ '' '') = replicate 30001 CHR ''a''"
    using strip_replicate_space[of "CHR ''a''" 30001 "CHR '' ''"] sp by simp
  have s2: "strip ''bbbbb'' = ''bbbbb''"
    by (rule strip_no_space_ends) (simp_all add: sp)
  have s3: "strip (replicate 30001 CHR ''a'') = replicate 30001 CHR ''a''"
    by (rule strip_no_space_ends) (simp_all add: sp)
  have big: "split_into_sections 30000 (replicate 30001 CHR ''a'' @ '' bbbbb'')
     [\<lparr>sec_heading = ''A'', sec_offset = Some 0\<rparr>, \<lparr>sec_heading = ''B'', sec_offset = Some 30002\<rparr>]
   = Inr [\<lparr>heading = ''A'', content = replicate 30001 CHR ''a''\<rparr>,
          \<lparr>heading = ''B'', content = ''bbbbb''\<rparr>]"
    by (simp add: split_into_sections_def with_offset_def preamble_chunks_def py_slice_def
        clamp_index_def merge_small_chunks_def s1 s2 s3)
  have small: "split_into_sections 10 ''aaaaaaaa bbbbb cccc''
     [\<lparr>sec_heading = ''A'', sec_offset = Some 0\<rparr>, \<lparr>sec_heading = ''B'', sec_offset = Some 9\<rparr>,
      \<lparr>sec_heading = ''C'', sec_offset = Some 15\<rparr>]
   = Inr [\<lparr>heading = ''A'', content = ''aaaaaaaa''\<rparr>,
          \<lparr>heading = ''B + C'', content = ''bbbbb'' @ newline2 @ ''cccc''\<rparr>]"
    by (simp add: split_into_sections_def with_offset_def preamble_chunks_def py_slice_def
        clamp_index_def merge_small_chunks_def strip_def is_space_def newline2_def)
  show ?thesis
    using big small by (simp add: newline2_def)
qed

subsection \<open>Self-Correction Controller\<close>

lemma correction_loop_bounds:
  "correction_loop m errors_of validate correct st = (st', e) \<Longrightarrow>
     count_list (calls st') Correct \<le> count_list (calls st) Correct + (m - correction_round st)
   \<and> count_list (calls st') ValidateFast \<le> count_list (calls st) ValidateFast + (m - correction_round st)
   \<and> count_list (calls st') ValidateFull = count_list (calls st) ValidateFull
   \<and> correction_round st' \<le> max m (correction_round st)"
proof (induction m errors_of validate correct st arbitrary: st' e rule: correction_loop.induct)
  case (1 m errors_of validate correct st)
  show ?case
  proof (cases "errors_of (grounding_result st) > 0 \<and> correction_round st < m")
    case False
    with "1.prems" show ?thesis
      by (simp add: correction_loop.simps)
  next
    case True
    define st1 where "st1 = st\<lparr>correction_round := correction_round st + 1, calls := calls st @ [Correct]\<rparr>"
    show ?thesis
    proof (cases "correct (parsed st1) (grounding_result st1)")
      case (Inl err)
      with True "1.prems" have "st' = st1"
        by (simp add: correction_loop.simps[of m errors_of validate correct st] st1_def Let_def)
      with True show ?thesis by (auto simp: st1_def)
    next
      case (Inr p)
      obtain co ca where p: "p = (co, ca)" by (cases p)
      show ?thesis
      proof (cases "ca = []")
        case ca: True
        with Inr p True "1.prems"
        have "st' = st1"
          by (simp add: correction_loop.simps[of m errors_of validate correct st] st1_def Let_def)
        with True show ?thesis
          by (auto simp: st1_def)
      next
        case ca: False
        define st2 where "st2 = st1\<lparr>all_corrections := all_corrections st1 @ ca,
                                 parsed := co, calls := calls st1 @ [ValidateFast]\<rparr>"
        show ?thesis
        proof (cases "validate co True")
          case (Inl err)
          with ca Inr p True "1.prems" have "st' = st2"
            by (simp add: correction_loop.simps[of m errors_of validate correct st] st1_def st2_def Let_def)
          with True show ?thesis by (auto simp: st1_def st2_def)
        next
          case g: (Inr g)
          from g ca Inr p True "1.prems"
          have rec: "correction_loop m errors_of validate correct (st2\<lparr>grounding_result := g\<rparr>) = (st', e)"
            by (simp add: correction_loop.simps[of m errors_of validate correct st] st1_def st2_def Let_def)
          have "count_list (calls st') Correct \<le> count_list (calls (st2\<lparr>grounding_result := g\<rparr>)) Correct + (m - correction_round (st2\<lparr>grounding_result := g\<rparr>))
   \<and> count_list (calls st') ValidateFast \<le> count_list (calls (st2\<lparr>grounding_result := g\<rparr>)) ValidateFast + (m - correction_round (st2\<lparr>grounding_result := g\<rparr>))
   \<and> count_list (calls st') ValidateFull = count_list (calls (st2\<lparr>grounding_result := g\<rparr>)) ValidateFull
   \<and> correction_round st' \<le> max m (correction_round (st2\<lparr>grounding_result := g\<rparr>))"
            by (rule "1.IH"[OF True st1_def Inr[unfolded p] refl ca st2_def g rec])
          with True show ?thesis by (auto simp: st1_def st2_def)
        qed
      qed
    qed
  qed
qed

text \<open>
  Claim C4. With \<open>MAX_CORRECTION_ROUNDS = 1\<close>, whatever the validator and the corrector
  return or raise: the controller calls the corrector at most once, re-validates in fast
  mode at most once, and the \<open>correction_rounds\<close> it reports is at most 1.
\<close>

theorem at_most_one_correction_round:
  "count_list (fst (run_grounding MAX_CORRECTION_ROUNDS errors_of validate correct out)) Correct \<le> 1
   \<and> count_list (fst (run_grounding MAX_CORRECTION_ROUNDS errors_of validate correct out)) ValidateFast \<le> 1
   \<and> (\<forall>r. snd (run_grounding MAX_CORRECTION_ROUNDS errors_of validate correct out) = Inr (Some r)
          \<longrightarrow> correction_rounds r \<le> 1)"
proof (cases out)
  case None
  then show ?thesis by (simp add: run_grounding_def)
next
  case (Some v)
  show ?thesis
  proof (cases "validate v False")
    case (Inl err)
    with Some show ?thesis by (simp add: run_grounding_def)
  next
    case (Inr g)
    define st0 :: "('a, 'b, 'c) loop_state" where
      "st0 = \<lparr>parsed = v, grounding_result = g, all_corrections = [],
              correction_round = 0, calls = [ValidateFull]\<rparr>"
    obtain st' e where run: "correction_loop MAX_CORRECTION_ROUNDS errors_of validate correct st0 = (st', e)"
      by (cases "correction_loop MAX_CORRECTION_ROUNDS errors_of validate correct st0")
    from correction_loop_bounds[OF run]
    have b: "count_list (calls st') Correct \<le> 1" "count_list (calls st') ValidateFast \<le> 1"
      "correction_round st' \<le> 1"
      by (simp_all add: st0_def MAX_CORRECTION_ROUNDS_def)
    from Some Inr run have r: "run_grounding MAX_CORRECTION_ROUNDS errors_of validate correct out =
       (case e of Some err \<Rightarrow> (calls st', Inl err) | None \<Rightarrow> (calls st', Inr (Some (attach_metadata st'))))"
      by (simp add: run_grounding_def st0_def)
    show ?thesis
      using b by (cases e) (auto simp: r attach_metadata_def)
  qed
qed

theorem at_most_one_correction_round_witness:
  "run_grounding MAX_CORRECTION_ROUNDS (\<lambda>r. r) demo_validate demo_correct (Some 0) =
     ([ValidateFull, Correct, ValidateFast],
      Inr (Some \<lparr>final_parsed = 1, final_report = 2, corrections_applied = [''removed''],
                 correction_rounds = 1\<rparr>))
   \<and> correction_rounds \<lparr>final_parsed = 1 :: nat, final_report = 2 :: int,
          corrections_applied = [''removed''], correction_rounds = 1\<rparr> \<le> 1"
proof -
  have run: "run_grounding MAX_CORRECTION_ROUNDS (\<lambda>r. r) demo_validate demo_correct (Some 0) =
     ([ValidateFull, Correct, ValidateFast],
      Inr (Some \<lparr>final_parsed = 1, final_report = 2, corrections_applied = [''removed''],
                 correction_rounds = 1\<rparr>))"
    by (simp add: run_grounding_def MAX_CORRECTION_ROUNDS_def correction_loop.simps
        demo_validate_def demo_correct_def attach_metadata_def)
  from at_most_one_correction_round[of "\<lambda>r. r" demo_validate demo_correct "Some 0"] run
  show ?thesis by simp
qed

subsection \<open>Figure-Text Matcher\<close>



lemma fig_refs_of_long:
  "\<not> list_all (\<lambda>(ds, cap, off). length ds \<le> int_max_str_digits) ms \<Longrightarrow>
   fig_refs_of ms = Inl ValueError"
  by (induction ms) (auto simp: py_int_def split: sum.splits)










text \<open>
  The limit of \<open>int\<close> is reached by a figure number of 4301 digits: with at least one
  figure description the matcher raises \<open>ValueError\<close>.
\<close>

lemma scan_fig_matches_skip:
  "length s \<le> k \<Longrightarrow> scan_fig_matches k off s = []"
  by (induction k off s rule: scan_fig_matches.induct) auto

lemma takeWhile_replicate_append:
  "P x \<Longrightarrow> takeWhile P (replicate n x @ ys) = replicate n x @ takeWhile P ys"
  "P x \<Longrightarrow> dropWhile P (replicate n x @ ys) = dropWhile P ys"
  by (induction n) auto

lemma scan_at_match:
  "s \<noteq> [] \<Longrightarrow> fig_ref_at s = Some (ds, cap, len) \<Longrightarrow>
   scan_fig_matches 0 off s = (ds, cap, off) # scan_fig_matches (len - 1) (Suc off) (tl s)"
  by (cases s) auto

lemma long_number_matches:
  "fig_matches long_number_text = [(replicate 4301 CHR ''1'', '' Survival'', 0)]"
proof -
  have d: "is_digit CHR ''1''" by (simp add: text_eval)
  have r: "replicate 4301 CHR ''1'' = CHR ''1'' # replicate 4300 CHR ''1''"
    by (simp add: replicate_Suc[symmetric] del: replicate_Suc)
  have l: "length long_number_text = 4316"
    by (simp add: long_number_text_def)
  have a: "after_fig_keyword long_number_text = Some (replicate 4301 CHR ''1'' @ '': Survival'')"
    by (simp add: long_number_text_def after_fig_keyword_def text_eval r)
  have f: "fig_ref_at long_number_text = Some (replicate 4301 CHR ''1'', '' Survival'', 4316)"
    using takeWhile_replicate_append[of is_digit "CHR ''1''"] d
    by (simp add: fig_ref_at_def a l text_eval Let_def)
  have ne: "long_number_text \<noteq> []"
    using l by auto
  show ?thesis
    unfolding fig_matches_def
    by (simp only: scan_at_match[OF ne f]) (simp add: scan_fig_matches_skip l)
qed

lemma overlong_figure_number_raises:
  "fds \<noteq> [] \<Longrightarrow> match_figures_to_paper greedy long_number_text fds = Inl ValueError"
  by (simp add: match_figures_to_paper_def find_fig_refs_def long_number_matches py_int_def
      int_max_str_digits_def)

subsection \<open>Quote verification\<close>

lemmas quote_eval = text_eval sublist_Cons_right content_words_def stop_words_def word_ratio_def
  windows_def windows_of_size_def

lemma float_values:
  "binary64 (3 / 5) = Finite (5404319552844595 / 9007199254740992)"
  "binary64 (17 / 20) = Finite (7656119366529843 / 9007199254740992)"
  "binary64 (3 / 4) = Finite (3 / 4)"
  "binary64 (23 / 34) = Finite (3046552689103571 / 4503599627370496)"
  "binary64 (43 / 45) = Finite (8606879287863615 / 9007199254740992)"
  "binary64 (17 / 25) = Finite (6124895493223875 / 9007199254740992)"
  "binary64 (24 / 25) = Finite (1080863910568919 / 1125899906842624)"
  by (simp_all add: float_eval)

lemma hyphen_norm:
  "normalize_text hyphen_quote = ''significant improvement in overall survival''"
  "normalize_text hyphen_source = ''a significant improvement in overall sur- vival was observed''"
  by (simp_all add: text_eval hyphen_quote_def hyphen_source_def)

lemma hyphen_not_contained:
  "\<not> sublist ''significant improvement in overall survival''
       ''a significant improvement in overall sur- vival was observed''"
  by (simp add: sublist_Cons_right)

lemma hyphen_content_words:
  "content_words ''significant improvement in overall survival''
     = [''significant'', ''improvement'', ''overall'', ''survival'']"
  by (simp add: quote_eval)

lemma hyphen_word_ratio:
  "word_ratio ''a significant improvement in overall sur- vival was observed''
     ''significant improvement in overall survival'' = Finite (3 / 4)"
  by (simp add: word_ratio_def hyphen_content_words sublist_Cons_right float_div_def float_values)

lemma hyphen_windows:
  "windows (py_split ''a significant improvement in overall sur- vival was observed'')
       (length (py_split ''significant improvement in overall survival''))
     = [''a significant improvement'', ''improvement in overall'', ''overall sur- vival'',
        ''vival was observed'',
        ''a significant improvement in'', ''improvement in overall sur-'',
        ''overall sur- vival was'',
        ''a significant improvement in overall'', ''improvement in overall sur- vival'',
        ''overall sur- vival was observed'',
        ''a significant improvement in overall sur-'', ''improvement in overall sur- vival was'',
        ''a significant improvement in overall sur- vival'',
        ''improvement in overall sur- vival was observed'',
        ''a significant improvement in overall sur- vival was'']"
  by (simp add: quote_eval)

lemma hyphen_ratios:
  "seq_ratio ''significant improvement in overall survival'' ''a significant improvement''
     = Finite (3046552689103571 / 4503599627370496)"
  "seq_ratio ''significant improvement in overall survival''
     ''a significant improvement in overall sur- vival''
     = Finite (8606879287863615 / 9007199254740992)"
  by (simp_all add: seq_ratio_def matched.simps float_div_def float_values)

lemma hyphen_rounded:
  "round2 (Finite (3046552689103571 / 4503599627370496)) = Finite (6124895493223875 / 9007199254740992)"
  "round2 (Finite (8606879287863615 / 9007199254740992)) = Finite (1080863910568919 / 1125899906842624)"
  by (simp_all add: round_half_even_def floor_fraction Let_def float_values)


text \<open>
  Claim C9 says that the score of a quote is the largest ratio found over the three
  strategies, and \<open>_fuzzy_contains\<close> is documented to return \<open>best_ratio\<close>. On the
  specification's hyphenation example it does not. Three of the four content words of the
  quote occur in the source, a coverage of 0.75, which is below 0.85, so the windows are
  searched. The first window visited, \<open>a significant improvement\<close>, has ratio 23/34, which
  reaches the threshold of 0.6: the search ends there and the score is that ratio rounded,
  0.68. It is below the coverage that was already held in \<open>best_ratio\<close>, and far below the
  ratio 43/45 of a window that was never visited, which rounds to 0.96.
\<close>

theorem first_accepting_window_is_reported:
  "verify_quote seq_ratio hyphen_source hyphen_quote =
     \<lparr>quote_text = hyphen_quote, quote_cut = False, quote_grounded = Some True,
      quote_score = binary64 (17 / 25), quote_too_short = False\<rparr>
   \<and> word_ratio (normalize_text hyphen_source) (normalize_text hyphen_quote) = binary64 (3 / 4)
   \<and> \<not> float_le (binary64 (3 / 4)) (binary64 (17 / 25))
   \<and> hd (windows (py_split (normalize_text hyphen_source))
             (length (py_split (normalize_text hyphen_quote)))) = ''a significant improvement''
   \<and> seq_ratio (normalize_text hyphen_quote) ''a significant improvement'' = binary64 (23 / 34)
   \<and> round2 (binary64 (23 / 34)) = binary64 (17 / 25)
   \<and> ''a significant improvement in overall sur- vival''
         \<in> set (windows (py_split (normalize_text hyphen_source))
                  (length (py_split (normalize_text hyphen_quote))))
   \<and> seq_ratio (normalize_text hyphen_quote) ''a significant improvement in overall sur- vival''
         = binary64 (43 / 45)
   \<and> round2 (binary64 (43 / 45)) = binary64 (24 / 25)"
proof -
  have f: "fuzzy_contains seq_ratio QUOTE_SIMILARITY_THRESHOLD hyphen_source hyphen_quote
      = (True, Finite (3046552689103571 / 4503599627370496))"
    by (simp add: fuzzy_contains_def hyphen_norm hyphen_not_contained hyphen_content_words
        hyphen_word_ratio hyphen_windows hyphen_ratios float_values QUOTE_SIMILARITY_THRESHOLD_def
        float_max_def)
  have l: "\<not> length (strip hyphen_quote) < 10" "hyphen_quote \<noteq> []"
    "take 100 hyphen_quote = hyphen_quote" "\<not> 100 < length hyphen_quote"
    by (simp_all add: hyphen_quote_def text_eval strip_def)
  have v: "verify_quote seq_ratio hyphen_source hyphen_quote =
     \<lparr>quote_text = hyphen_quote, quote_cut = False, quote_grounded = Some True,
      quote_score = binary64 (17 / 25), quote_too_short = False\<rparr>"
    by (simp add: verify_quote_def l f hyphen_rounded float_values del: round2.simps)
  show ?thesis
    by (simp add: v hyphen_norm hyphen_word_ratio hyphen_windows hyphen_ratios hyphen_rounded
        float_values del: round2.simps)
qed

end
